theory Spec2Isabelle
  imports Main "HOL-Library.Sublist"
begin

section \<open>Values handed to the constructor\<close>

text \<open>
  The six classes of \<^verbatim>\<open>copulas.univariate\<close> that the table \<^verbatim>\<open>_DISTRIBUTIONS\<close>
  of \<^verbatim>\<open>GaussianCopulaSynthesizer\<close> names.
\<close>

datatype family =
    GaussianUnivariate
  | BetaUnivariate
  | TruncatedGaussian
  | GammaUnivariate
  | UniformUnivariate
  | GaussianKDE

text \<open>
  Python is untyped, so the two configuration arguments can be any object. The universe
  below has what the constructor distinguishes: \<^verbatim>\<open>None\<close>, booleans, integers, strings,
  lists, dictionaries keyed by field name (their items in insertion order; the keys of a
  Python dictionary are distinct) and an instance of a \<^verbatim>\<open>copulas.univariate\<close> class.
\<close>

datatype pyval =
    PyNone
  | PyBool bool
  | PyInt int
  | PyStr string
  | PyList "pyval list"
  | PyDict "(string \<times> pyval) list"
  | PyUnivariate family

text \<open>
  Truth value of an object, as \<^verbatim>\<open>and\<close>, \<^verbatim>\<open>or\<close> and \<^verbatim>\<open>if\<close> test it: \<^verbatim>\<open>None\<close>,
  \<^verbatim>\<open>False\<close>, zero and the empty string, list and dictionary are false; an instance of a
  class that defines neither \<^verbatim>\<open>__bool__\<close> nor \<^verbatim>\<open>__len__\<close> is true.
\<close>

fun truthy :: "pyval \<Rightarrow> bool" where
  "truthy PyNone = False"
| "truthy (PyBool b) = b"
| "truthy (PyInt i) = (i \<noteq> 0)"
| "truthy (PyStr s) = (s \<noteq> [])"
| "truthy (PyList xs) = (xs \<noteq> [])"
| "truthy (PyDict kvs) = (kvs \<noteq> [])"
| "truthy (PyUnivariate f) = True"

text \<open>\<^verbatim>\<open>x or y\<close>\<close>

definition py_or :: "pyval \<Rightarrow> pyval \<Rightarrow> pyval" where
  "py_or x y = (if truthy x then x else y)"

text \<open>\<^verbatim>\<open>isinstance(x, dict)\<close> and \<^verbatim>\<open>isinstance(x, str)\<close>\<close>

fun is_dict :: "pyval \<Rightarrow> bool" where
  "is_dict (PyDict kvs) = True"
| "is_dict v = False"

fun is_str :: "pyval \<Rightarrow> bool" where
  "is_str (PyStr s) = True"
| "is_str v = False"

text \<open>\<^verbatim>\<open>d.items()\<close> of a value already known to be a dictionary.\<close>

fun items :: "pyval \<Rightarrow> (string \<times> pyval) list" where
  "items (PyDict kvs) = kvs"
| "items v = []"

section \<open>Exceptions\<close>

text \<open>
  Every \<^verbatim>\<open>raise\<close> of the file is a constructor:
  \<^item> \<open>TypeError_not_dict\<close>: \<^verbatim>\<open>TypeError('numerical_distributions can only be None or a dict instance')\<close>;
  \<^item> \<open>ValueError_invalid_distribution v\<close>: \<^verbatim>\<open>ValueError\<close> with the message
    \<^verbatim>\<open>Invalid distribution specification '<v>'.\<close>;
  \<^item> \<open>ValueError_not_fitted\<close>: \<^verbatim>\<open>ValueError\<close> with the message
    \<^verbatim>\<open>Distributions have not been learned yet. Please fit your model first using 'fit'\<close>;
  \<^item> \<open>AttributeError_NoneType a\<close>: what Python raises for \<^verbatim>\<open>None.a\<close>;
  \<^item> \<open>KeyError k\<close>: what Python raises for \<^verbatim>\<open>d[k]\<close> when \<^verbatim>\<open>k\<close> is not a key of \<^verbatim>\<open>d\<close>;
  \<^item> \<open>Raised msg\<close>: an exception raised inside a collaborator that is not part of the
    file (the base class, the copulas library).
\<close>

datatype error =
    TypeError_not_dict
  | ValueError_invalid_distribution pyval
  | ValueError_not_fitted
  | AttributeError_NoneType string
  | KeyError string
  | Raised string

text \<open>The two classes of the specification's error taxonomy that the file itself raises.\<close>

fun configuration_error :: "error \<Rightarrow> bool" where
  "configuration_error TypeError_not_dict = True"
| "configuration_error (ValueError_invalid_distribution v) = True"
| "configuration_error e = False"

fun usage_sequencing_error :: "error \<Rightarrow> bool" where
  "usage_sequencing_error ValueError_not_fitted = True"
| "usage_sequencing_error (AttributeError_NoneType a) = True"
| "usage_sequencing_error e = False"

section \<open>Validation of a distribution specification\<close>

definition priv_DISTRIBUTIONS :: "(string \<times> family) list" where
  "priv_DISTRIBUTIONS =
     [(''norm'', GaussianUnivariate),
      (''beta'', BetaUnivariate),
      (''truncnorm'', TruncatedGaussian),
      (''gamma'', GammaUnivariate),
      (''uniform'', UniformUnivariate),
      (''gaussian_kde'', GaussianKDE)]"

text \<open>
  \<^verbatim>\<open>_validate_distribution\<close>: anything that is not a string, and any string that is not a
  key of the table, raises; otherwise the class of the table is returned.
\<close>

fun priv_validate_distribution :: "pyval \<Rightarrow> error + family" where
  "priv_validate_distribution (PyStr d) =
     (case map_of priv_DISTRIBUTIONS d of
        None \<Rightarrow> Inl (ValueError_invalid_distribution (PyStr d))
      | Some cls \<Rightarrow> Inr cls)"
| "priv_validate_distribution v = Inl (ValueError_invalid_distribution v)"

text \<open>
  The dictionary comprehension of the constructor: the items are validated in order, and
  the first one that raises ends the construction.
\<close>

fun validate_items :: "(string \<times> pyval) list \<Rightarrow> error + (string \<times> family) list" where
  "validate_items [] = Inr []"
| "validate_items ((field, distribution) # rest) =
     (case priv_validate_distribution distribution of
        Inl e \<Rightarrow> Inl e
      | Inr cls \<Rightarrow>
          (case validate_items rest of
             Inl e \<Rightarrow> Inl e
           | Inr done \<Rightarrow> Inr ((field, cls) # done)))"

section \<open>The synthesizer and its constructor\<close>

text \<open>
  The description of one table: \<^verbatim>\<open>metadata._columns\<close> maps a column name to the
  dictionary of its properties, one of them \<^verbatim>\<open>'sdtype'\<close>.
\<close>

record metadata =
  priv_columns :: "string \<rightharpoonup> (string \<rightharpoonup> string)"

text \<open>
  The attributes that \<^verbatim>\<open>BaseSingleTableSynthesizer\<close> keeps; the attributes of the class
  \<^verbatim>\<open>GaussianCopulaSynthesizer\<close> extend them. A leading underscore of the source is written
  \<open>priv_\<close>. The joint model of type \<open>'m\<close> belongs to the copulas library.
\<close>

record base_synthesizer =
  metadata :: metadata
  enforce_min_max_values :: bool
  enforce_rounding :: bool
  priv_fitted :: bool

record 'm synthesizer = base_synthesizer +
  default_distribution :: pyval
  numerical_distributions :: "(string \<times> pyval) list"
  priv_default_distribution :: family
  priv_numerical_distributions :: "(string \<times> family) list"
  priv_model :: "'m option"

text \<open>
  \<^verbatim>\<open>__init__\<close>. The constructor of the base class is not in the file and is the
  parameter \<open>super_init\<close>; an exception it raises leaves the constructor at once. The class
  attribute \<^verbatim>\<open>_model = None\<close> is what a new instance reads as its model. A constructor
  that raises returns no instance: the result is \<open>Inl\<close>.
\<close>

definition init ::
  "(metadata \<Rightarrow> bool \<Rightarrow> bool \<Rightarrow> error + base_synthesizer) \<Rightarrow>
   metadata \<Rightarrow> bool \<Rightarrow> bool \<Rightarrow> pyval \<Rightarrow> pyval \<Rightarrow> error + 'm synthesizer" where
  "init super_init md emm er numerical_distributions_arg default_distribution_arg =
     (case super_init md emm er of
        Inl e \<Rightarrow> Inl e
      | Inr base \<Rightarrow>
          if truthy numerical_distributions_arg \<and> \<not> is_dict numerical_distributions_arg
          then Inl TypeError_not_dict
          else
            (let dd = py_or default_distribution_arg (PyStr ''beta'');
                 nd = py_or numerical_distributions_arg (PyDict [])
             in case priv_validate_distribution dd of
                  Inl e \<Rightarrow> Inl e
                | Inr cls \<Rightarrow>
                    (case validate_items (items (py_or numerical_distributions_arg (PyDict []))) of
                       Inl e \<Rightarrow> Inl e
                     | Inr clss \<Rightarrow>
                         Inr \<lparr>metadata = metadata base,
                              enforce_min_max_values = enforce_min_max_values base,
                              enforce_rounding = enforce_rounding base,
                              priv_fitted = priv_fitted base,
                              default_distribution = dd,
                              numerical_distributions = items nd,
                              priv_default_distribution = cls,
                              priv_numerical_distributions = clss,
                              priv_model = None\<rparr>)))"

text \<open>
  Modelled from the spec: the constructor of \<^verbatim>\<open>BaseSingleTableSynthesizer\<close>, whose file
  is not among the sources. The specification has it keep the metadata and the two flags,
  which are passed through, and start every instance in the state \<^emph>\<open>unfitted\<close>.
\<close>

definition base_init :: "metadata \<Rightarrow> bool \<Rightarrow> bool \<Rightarrow> error + base_synthesizer" where
  "base_init md emm er =
     Inr \<lparr>metadata = md, enforce_min_max_values = emm, enforce_rounding = er,
          priv_fitted = False\<rparr>"

section \<open>Column names\<close>

text \<open>
  \<^verbatim>\<open>s.replace(old, new)\<close> of Python: the occurrences of \<^verbatim>\<open>old\<close> are found from left to
  right without overlap and each becomes \<^verbatim>\<open>new\<close>; the text already passed is not read
  again. For an empty \<^verbatim>\<open>old\<close>, \<^verbatim>\<open>new\<close> is put before every character and at the end.
\<close>

function py_replace :: "string \<Rightarrow> string \<Rightarrow> string \<Rightarrow> string" where
  "py_replace old new [] = (if old = [] then new else [])"
| "py_replace old new (c # cs) =
     (if old = [] then new @ c # py_replace old new cs
      else if prefix old (c # cs) then new @ py_replace old new (drop (length old) (c # cs))
      else c # py_replace old new cs)"
  by pat_completeness auto
termination
  by (relation "measure (\<lambda>(old, new, s). length s)") auto

text \<open>
  The name under which \<^verbatim>\<open>_fit\<close> looks a column up when the column itself is not
  configured: \<^verbatim>\<open>column.replace('.value', '')\<close>.
\<close>

definition column_name :: "string \<Rightarrow> string" where
  "column_name column = py_replace ''.value'' [] column"

text \<open>
  The specification's wording of the same step, ``the column name after stripping a
  \<^verbatim>\<open>.value\<close> suffix'': only a \<^verbatim>\<open>.value\<close> that ends the name is removed.
\<close>

definition strip_value_suffix :: "string \<Rightarrow> string" where
  "strip_value_suffix column =
     (if suffix ''.value'' column then take (length column - length ''.value'') column
      else column)"

section \<open>The copulas library\<close>

text \<open>
  A table: the adapter reads \<^verbatim>\<open>processed_data.columns\<close> and hands the table on; the
  cells, of type \<open>'r\<close>, are for the library.
\<close>

record 'r dataframe =
  columns :: "string list"
  cells :: 'r

text \<open>
  Objects that can be mutated have an identity. A dictionary or a list carries its address
  \<open>'a\<close>; two nodes with the same address are the same object. Numbers, strings and
  \<^verbatim>\<open>None\<close> are immutable and carry none. A float is named by its bit pattern; no
  arithmetic is done on it here.
\<close>

datatype atom = ANone | ABool bool | AInt int | AFloat int | AStr string

datatype 'a pyobj =
    Atom atom
  | DictObj 'a "(string \<times> 'a pyobj) list"
  | ListObj 'a "'a pyobj list"

text \<open>
  What \<^verbatim>\<open>GaussianMultivariate.to_dict()\<close> returns, as far as the adapter reads it:
  the entries \<^verbatim>\<open>'columns'\<close> and \<^verbatim>\<open>'univariates'\<close>.
\<close>

record parameters =
  param_columns :: "string list"
  univariates :: "nat pyobj list"

text \<open>
  The library is a collaborator outside the repository; the adapter is verified for every
  implementation of the four calls it makes:
  \<^item> \<open>GaussianMultivariate\<close>: the constructor, given the dictionary from column to class;
  \<^item> \<open>model_fit\<close>: \<^verbatim>\<open>model.fit(data)\<close>, which changes the model in place and may raise;
  \<^item> \<open>model_sample\<close>: \<^verbatim>\<open>model.sample(num_rows, conditions=conditions)\<close>, which may
    advance the random state of the model;
  \<^item> \<open>model_to_dict\<close>: \<^verbatim>\<open>model.to_dict()\<close>.
\<close>

record ('m, 'r) copulas =
  GaussianMultivariate :: "(string \<rightharpoonup> family) \<Rightarrow> error + 'm"
  model_fit :: "'m \<Rightarrow> 'r dataframe \<Rightarrow> error option \<times> 'm"
  model_sample :: "'m \<Rightarrow> int \<Rightarrow> (string \<rightharpoonup> atom) option \<Rightarrow> (error + 'r dataframe) \<times> 'm"
  model_to_dict :: "'m \<Rightarrow> error + parameters"

section \<open>Fitting\<close>

text \<open>\<^verbatim>\<open>d.get(key, default)\<close> on the items of a dictionary.\<close>

definition get :: "(string \<times> 'v) list \<Rightarrow> string \<Rightarrow> 'v \<Rightarrow> 'v" where
  "get d key dflt = (case map_of d key of None \<Rightarrow> dflt | Some v \<Rightarrow> v)"

text \<open>
  The loop of \<^verbatim>\<open>_fit\<close> over \<^verbatim>\<open>processed_data.columns\<close>. It fills the copy \<open>nd\<close> and
  looks up in the attribute \<^verbatim>\<open>self._numerical_distributions\<close>, which it never changes.
\<close>

fun fit_loop ::
  "('m, 'z) synthesizer_scheme \<Rightarrow> string list \<Rightarrow> (string \<rightharpoonup> family) \<Rightarrow> (string \<rightharpoonup> family)" where
  "fit_loop s [] nd = nd"
| "fit_loop s (column # rest) nd =
     fit_loop s rest
       (if nd column = None
        then nd(column \<mapsto>
               get (priv_numerical_distributions s) (column_name column)
                 (priv_default_distribution s))
        else nd)"

text \<open>
  \<^verbatim>\<open>_fit\<close>. The deep copy of a dictionary from strings to classes is a new dictionary with
  the same entries. The new model is stored in \<^verbatim>\<open>self._model\<close> before it is fitted, and
  \<^verbatim>\<open>fit\<close> works on the stored object: what a call that raises leaves behind stays in the
  attribute. An exception of the library leaves \<^verbatim>\<open>_fit\<close> at once.
\<close>

definition priv_fit ::
  "('m, 'r) copulas \<Rightarrow> 'm synthesizer \<Rightarrow> 'r dataframe \<Rightarrow> error option \<times> 'm synthesizer" where
  "priv_fit lib s processed_data =
     (let nd = fit_loop s (columns processed_data) (map_of (priv_numerical_distributions s))
      in case GaussianMultivariate lib nd of
           Inl e \<Rightarrow> (Some e, s)
         | Inr model \<Rightarrow>
             (case model_fit lib model processed_data of
                (raised, model') \<Rightarrow> (raised, s\<lparr>priv_model := Some model'\<rparr>)))"

text \<open>
  Modelled from the spec: \<^verbatim>\<open>fit\<close> of \<^verbatim>\<open>BaseSingleTableSynthesizer\<close>, whose file is not
  among the sources. The specification has the instance become \<^emph>\<open>fitted\<close> ``once fit
  succeeds''; the preprocessing that comes first belongs to the transformer pipeline, so
  the table here is the processed one.
\<close>

definition fit ::
  "('m, 'r) copulas \<Rightarrow> 'm synthesizer \<Rightarrow> 'r dataframe \<Rightarrow> error option \<times> 'm synthesizer" where
  "fit lib s processed_data =
     (case priv_fit lib s processed_data of
        (Some e, s') \<Rightarrow> (Some e, s')
      | (None, s') \<Rightarrow> (None, s'\<lparr>priv_fitted := True\<rparr>))"

section \<open>Sampling\<close>

text \<open>
  \<^verbatim>\<open>_sample\<close>: the method \<^verbatim>\<open>sample\<close> is looked up on whatever \<^verbatim>\<open>self._model\<close> holds;
  on \<^verbatim>\<open>None\<close> the lookup raises.
\<close>

definition priv_sample ::
  "('m, 'r) copulas \<Rightarrow> 'm synthesizer \<Rightarrow> int \<Rightarrow> (string \<rightharpoonup> atom) option \<Rightarrow>
   (error + 'r dataframe) \<times> 'm synthesizer" where
  "priv_sample lib s num_rows conditions =
     (case priv_model s of
        None \<Rightarrow> (Inl (AttributeError_NoneType ''sample''), s)
      | Some model \<Rightarrow>
          (case model_sample lib model num_rows conditions of
             (result, model') \<Rightarrow> (result, s\<lparr>priv_model := Some model'\<rparr>)))"

section \<open>The learned distributions\<close>

text \<open>
  \<^verbatim>\<open>copy.deepcopy\<close>: the copy has the shape and the atoms of the original, and every
  dictionary and list in it is a new object. \<open>alloc\<close> is the allocation mark of the store,
  above the address of every object that exists when the copy is made; the copy of the
  object at \<open>a\<close> is placed at \<open>alloc + a\<close>, so that an object reached twice is copied once,
  as the memo of \<^verbatim>\<open>deepcopy\<close> has it.
\<close>

definition deepcopy :: "nat \<Rightarrow> nat pyobj \<Rightarrow> nat pyobj" where
  "deepcopy alloc obj = map_pyobj (\<lambda>a. alloc + a) obj"

text \<open>One entry of the report: the dictionary with the keys \<^verbatim>\<open>'distribution'\<close> and
  \<^verbatim>\<open>'learned_parameters'\<close>.\<close>

record 'a learned =
  distribution :: pyval
  learned_parameters :: "'a pyobj"

text \<open>The loop over \<^verbatim>\<open>zip(columns, univariates)\<close>; a later entry for the same column
  replaces an earlier one.\<close>

fun learned_loop ::
  "('m, 'z) synthesizer_scheme \<Rightarrow> (string \<times> 'a pyobj) list \<Rightarrow>
   (string \<rightharpoonup> 'a learned) \<Rightarrow> (string \<rightharpoonup> 'a learned)" where
  "learned_loop s [] learned_distributions = learned_distributions"
| "learned_loop s ((column, learned_params) # rest) learned_distributions =
     learned_loop s rest
       (learned_distributions(column \<mapsto>
          \<lparr>distribution = get (numerical_distributions s) column (default_distribution s),
           learned_parameters = learned_params\<rparr>))"

text \<open>
  \<^verbatim>\<open>get_learned_distributions\<close>. \<^verbatim>\<open>zip\<close> stops at the shorter of its two arguments.
\<close>

definition get_learned_distributions ::
  "('m, 'r) copulas \<Rightarrow> 'm synthesizer \<Rightarrow> nat \<Rightarrow> error + (string \<rightharpoonup> nat learned)" where
  "get_learned_distributions lib s alloc =
     (if \<not> priv_fitted s then Inl ValueError_not_fitted
      else
        (case priv_model s of
           None \<Rightarrow> Inl (AttributeError_NoneType ''to_dict'')
         | Some model \<Rightarrow>
             (case model_to_dict lib model of
                Inl e \<Rightarrow> Inl e
              | Inr parameters \<Rightarrow>
                  Inr (learned_loop s
                         (zip (param_columns parameters)
                            (map (deepcopy alloc) (univariates parameters)))
                         Map.empty))))"


text \<open>Structural equality compares two reports without the identities of their objects.\<close>

definition shape :: "'a learned \<Rightarrow> unit learned" where
  "shape e =
     \<lparr>distribution = distribution e,
      learned_parameters = map_pyobj (\<lambda>a. ()) (learned_parameters e)\<rparr>"

section \<open>The warning about transformers\<close>

text \<open>A transformer of the preprocessing layer: an instance of \<^verbatim>\<open>OneHotEncoder\<close>, or an
  instance of another class, given by its name.\<close>

datatype transformer = OneHotEncoder | OtherTransformer string

definition one_hot_warning :: "string \<Rightarrow> string" where
  "one_hot_warning column =
     ''Using a OneHotEncoder transformer for column '' @ [CHR 0x27] @ column @ [CHR 0x27, CHR '' '']
       @ ''may slow down the preprocessing and modeling times.''"

text \<open>
  The loop of \<^verbatim>\<open>_warn_for_update_transformers\<close> over the items of the dictionary. Both
  subscripts raise \<^verbatim>\<open>KeyError\<close> on a missing key, which ends the loop; the warnings
  issued before stay issued.
\<close>

fun warn_loop :: "metadata \<Rightarrow> (string \<times> transformer) list \<Rightarrow> error option \<times> string list" where
  "warn_loop md [] = (None, [])"
| "warn_loop md ((column, transformer) # rest) =
     (case priv_columns md column of
        None \<Rightarrow> (Some (KeyError column), [])
      | Some properties \<Rightarrow>
          (case properties ''sdtype'' of
             None \<Rightarrow> (Some (KeyError ''sdtype''), [])
           | Some sdtype \<Rightarrow>
               (let issued = (if sdtype = ''categorical'' \<and> transformer = OneHotEncoder
                              then [one_hot_warning column] else [])
                in case warn_loop md rest of
                     (raised, later) \<Rightarrow> (raised, issued @ later))))"

text \<open>\<^verbatim>\<open>_warn_for_update_transformers\<close>: the outcome of the loop, the warnings issued, and
  the instance after the call.\<close>

definition priv_warn_for_update_transformers ::
  "'m synthesizer \<Rightarrow> (string \<times> transformer) list \<Rightarrow>
   (error option \<times> string list) \<times> 'm synthesizer" where
  "priv_warn_for_update_transformers s column_name_to_transformer =
     (warn_loop (metadata s) column_name_to_transformer, s)"

section \<open>A concrete table and a stand-in for the library\<close>

text \<open>
  The theorems below hold for every implementation of the library. To run the adapter on
  concrete inputs, the stand-in \<open>stub_copulas\<close> keeps the columns it was fitted on: its
  constructor raises when a column called \<^verbatim>\<open>broken\<close> is assigned a class, its \<^verbatim>\<open>fit\<close>
  raises on fewer than two columns, and \<^verbatim>\<open>sample\<close> and \<^verbatim>\<open>to_dict\<close> raise on a model
  that is not fitted. The parameters of column number \<open>i\<close> are a dictionary at address \<open>i\<close>.
\<close>

datatype stub_model = Unfitted | Fitted "string list"

definition stub_copulas :: "(stub_model, unit) copulas" where
  "stub_copulas =
     \<lparr>GaussianMultivariate = (\<lambda>nd.
         case nd ''broken'' of Some cls \<Rightarrow> Inl (Raised ''TypeError'') | None \<Rightarrow> Inr Unfitted),
      model_fit = (\<lambda>model data.
         if length (columns data) < 2 then (Some (Raised ''singular matrix''), Unfitted)
         else (None, Fitted (columns data))),
      model_sample = (\<lambda>model num_rows conditions.
         case model of
           Unfitted \<Rightarrow> (Inl (Raised ''NotFittedError''), model)
         | Fitted cols \<Rightarrow> (Inr \<lparr>columns = cols, cells = ()\<rparr>, model)),
      model_to_dict = (\<lambda>model.
         case model of
           Unfitted \<Rightarrow> Inl (Raised ''NotFittedError'')
         | Fitted cols \<Rightarrow>
             Inr \<lparr>param_columns = cols,
                  univariates =
                    map (\<lambda>i. DictObj i [(''loc'', Atom (AFloat 0))]) [0..<length cols]\<rparr>)\<rparr>"

definition demo_metadata :: metadata where
  "demo_metadata =
     \<lparr>priv_columns =
        [''colour'' \<mapsto> [''sdtype'' \<mapsto> ''categorical''],
         ''size'' \<mapsto> [''sdtype'' \<mapsto> ''categorical''],
         ''x'' \<mapsto> [''sdtype'' \<mapsto> ''numerical'']]\<rparr>"

text \<open>The instance that
  \<^verbatim>\<open>GaussianCopulaSynthesizer(metadata, numerical_distributions={'x': 'norm'})\<close> builds.\<close>

definition demo_synthesizer :: "stub_model synthesizer" where
  "demo_synthesizer =
     \<lparr>metadata = demo_metadata, enforce_min_max_values = True, enforce_rounding = True,
      priv_fitted = False, default_distribution = PyStr ''beta'',
      numerical_distributions = [(''x'', PyStr ''norm'')],
      priv_default_distribution = BetaUnivariate,
      priv_numerical_distributions = [(''x'', GaussianUnivariate)],
      priv_model = None\<rparr>"

definition demo_data :: "unit dataframe" where
  "demo_data = \<lparr>columns = [''colour'', ''x.value''], cells = ()\<rparr>"

text \<open>The same instance after \<^verbatim>\<open>fit\<close> on \<open>demo_data\<close>.\<close>

definition fitted_synthesizer :: "stub_model synthesizer" where
  "fitted_synthesizer =
     demo_synthesizer\<lparr>priv_fitted := True, priv_model := Some (Fitted [''colour'', ''x.value''])\<rparr>"

text \<open>The instance that
  \<^verbatim>\<open>GaussianCopulaSynthesizer(metadata, numerical_distributions={'x.y': 'norm'})\<close> builds.\<close>

definition dotted_synthesizer :: "stub_model synthesizer" where
  "dotted_synthesizer =
     \<lparr>metadata = demo_metadata, enforce_min_max_values = True, enforce_rounding = True,
      priv_fitted = False, default_distribution = PyStr ''beta'',
      numerical_distributions = [(''x.y'', PyStr ''norm'')],
      priv_default_distribution = BetaUnivariate,
      priv_numerical_distributions = [(''x.y'', GaussianUnivariate)],
      priv_model = None\<rparr>"



text \<open>The instance that
  \<^verbatim>\<open>GaussianCopulaSynthesizer(metadata, numerical_distributions={'price.value': 'norm'})\<close>
  builds: the field is itself called \<^verbatim>\<open>price.value\<close>.\<close>

definition priced_synthesizer :: "stub_model synthesizer" where
  "priced_synthesizer =
     \<lparr>metadata = demo_metadata, enforce_min_max_values = True, enforce_rounding = True,
      priv_fitted = False, default_distribution = PyStr ''beta'',
      numerical_distributions = [(''price.value'', PyStr ''norm'')],
      priv_default_distribution = BetaUnivariate,
      priv_numerical_distributions = [(''price.value'', GaussianUnivariate)],
      priv_model = None\<rparr>"

text \<open>A library whose \<^verbatim>\<open>fit\<close> has already fitted the model when it raises.\<close>

definition late_copulas :: "(stub_model, unit) copulas" where
  "late_copulas =
     stub_copulas\<lparr>model_fit := (\<lambda>model data. (Some (Raised ''interrupted''), Fitted (columns data)))\<rparr>"

section \<open>Facts about validation and construction\<close>

lemma map_of_DISTRIBUTIONS_None:
  "name \<notin> fst ` set priv_DISTRIBUTIONS \<Longrightarrow> map_of priv_DISTRIBUTIONS name = None"
  by (simp add: map_of_eq_None_iff)

lemma priv_validate_distribution_unrecognized:
  "name \<notin> fst ` set priv_DISTRIBUTIONS \<Longrightarrow>
   priv_validate_distribution (PyStr name) = Inl (ValueError_invalid_distribution (PyStr name))"
  by (simp add: map_of_DISTRIBUTIONS_None)

lemma priv_validate_distribution_not_str:
  "\<not> is_str v \<Longrightarrow> priv_validate_distribution v = Inl (ValueError_invalid_distribution v)"
  by (cases v) simp_all

lemma priv_validate_distribution_error:
  "priv_validate_distribution v = Inl e \<Longrightarrow> e = ValueError_invalid_distribution v"
  by (cases v) (auto split: option.splits)

lemma validate_items_bad:
  "(field, v) \<in> set kvs \<Longrightarrow> priv_validate_distribution v = Inl e \<Longrightarrow>
   \<exists>w. validate_items kvs = Inl (ValueError_invalid_distribution w)"
proof (induction kvs)
  case Nil
  then show ?case by simp
next
  case (Cons kv kvs)
  obtain k u where kv: "kv = (k, u)" by (cases kv)
  show ?case
  proof (cases "priv_validate_distribution u")
    case (Inl e')
    then show ?thesis using kv priv_validate_distribution_error [OF Inl] by auto
  next
    case (Inr cls)
    with Cons kv have "(field, v) \<in> set kvs" by auto
    from Cons.IH [OF this Cons.prems(2)] obtain w
      where "validate_items kvs = Inl (ValueError_invalid_distribution w)" by blast
    then show ?thesis using kv Inr by simp
  qed
qed

lemma validate_items_ok:
  "validate_items kvs = Inr clss \<Longrightarrow>
   map fst clss = map fst kvs \<and>
   (\<forall>(k, v) \<in> set kvs. \<exists>name cls. v = PyStr name \<and> (name, cls) \<in> set priv_DISTRIBUTIONS)"
proof (induction kvs arbitrary: clss)
  case Nil
  then show ?case by simp
next
  case (Cons kv kvs)
  obtain k u where kv: "kv = (k, u)" by (cases kv)
  from Cons.prems kv obtain cls rest where
    u: "priv_validate_distribution u = Inr cls" and r: "validate_items kvs = Inr rest"
    and c: "clss = (k, cls) # rest"
    by (auto split: sum.splits)
  from u obtain name where "u = PyStr name" "map_of priv_DISTRIBUTIONS name = Some cls"
    by (cases u) (auto split: option.splits)
  then have "\<exists>name cls. u = PyStr name \<and> (name, cls) \<in> set priv_DISTRIBUTIONS"
    by (blast dest: map_of_SomeD)
  with Cons.IH [OF r] kv c show ?case by auto
qed

lemma init_super_raises:
  "super_init md emm er = Inl e \<Longrightarrow> init super_init md emm er nd dd = Inl e"
  by (simp add: init_def)

lemma init_not_dict:
  "super_init md emm er = Inr base \<Longrightarrow> truthy nd \<Longrightarrow> \<not> is_dict nd \<Longrightarrow>
   init super_init md emm er nd dd = Inl TypeError_not_dict"
  by (simp add: init_def)

lemma init_bad_default:
  "super_init md emm er = Inr base \<Longrightarrow>
   priv_validate_distribution (py_or dd (PyStr ''beta'')) = Inl e \<Longrightarrow>
   \<exists>e'. init super_init md emm er nd dd = Inl e' \<and> configuration_error e'"
  by (auto simp: init_def Let_def dest: priv_validate_distribution_error)

lemma init_bad_item:
  assumes "super_init md emm er = Inr base" "(field, v) \<in> set kvs"
    "priv_validate_distribution v = Inl e"
  shows "\<exists>e'. init super_init md emm er (PyDict kvs) dd = Inl e' \<and> configuration_error e'"
proof -
  from assms(2) have ne: "kvs \<noteq> []" by auto
  from validate_items_bad [OF assms(2,3)] obtain w
    where w: "validate_items kvs = Inl (ValueError_invalid_distribution w)" by blast
  show ?thesis
  proof (cases "priv_validate_distribution (py_or dd (PyStr ''beta''))")
    case (Inl e')
    show ?thesis using assms(1) Inl by (rule init_bad_default)
  next
    case (Inr cls)
    then show ?thesis using assms(1) ne w by (simp add: init_def Let_def py_or_def)
  qed
qed

lemma init_accepted:
  assumes "init super_init md emm er nd dd = Inr s"
  shows "(\<exists>name. default_distribution s = PyStr name \<and> name \<in> fst ` set priv_DISTRIBUTIONS) \<and>
         (\<forall>(k, d) \<in> set (numerical_distributions s).
            \<exists>name. d = PyStr name \<and> name \<in> fst ` set priv_DISTRIBUTIONS)"
proof -
  from assms obtain cls clss where
    d: "priv_validate_distribution (py_or dd (PyStr ''beta'')) = Inr cls"
    and i: "validate_items (items (py_or nd (PyDict []))) = Inr clss"
    and s1: "default_distribution s = py_or dd (PyStr ''beta'')"
    and s2: "numerical_distributions s = items (py_or nd (PyDict []))"
    by (auto simp: init_def Let_def split: sum.splits if_splits)
  from d obtain name where n: "py_or dd (PyStr ''beta'') = PyStr name"
    and m: "map_of priv_DISTRIBUTIONS name = Some cls"
    by (cases "py_or dd (PyStr ''beta'')") (auto split: option.splits)
  from m have "name \<in> fst ` set priv_DISTRIBUTIONS" by (force dest: map_of_SomeD)
  with n s1 have one: "\<exists>name. default_distribution s = PyStr name \<and> name \<in> fst ` set priv_DISTRIBUTIONS"
    by simp
  from validate_items_ok [OF i] s2
  have two: "\<forall>(k, d) \<in> set (numerical_distributions s).
            \<exists>name. d = PyStr name \<and> name \<in> fst ` set priv_DISTRIBUTIONS"
    by force
  from one two show ?thesis by blast
qed

lemma demo_init:
  "init base_init demo_metadata True True (PyDict [(''x'', PyStr ''norm'')]) PyNone =
     Inr demo_synthesizer"
  by (simp add: init_def base_init_def py_or_def priv_DISTRIBUTIONS_def demo_synthesizer_def)

lemma demo_fit: "fit stub_copulas demo_synthesizer demo_data = (None, fitted_synthesizer)"
  by (simp add: fit_def priv_fit_def stub_copulas_def demo_data_def fitted_synthesizer_def
      demo_synthesizer_def Let_def)

section \<open>Facts about the loops, the copy and the column names\<close>

lemma prefix_value_append:
  "prefix ''.value'' (xs @ ''.value'') \<Longrightarrow> xs \<noteq> [] \<Longrightarrow> prefix ''.value'' xs"
  by (auto simp: prefix_append Cons_eq_append_conv)

lemma py_replace_value_suffix:
  "\<not> sublist ''.value'' x \<Longrightarrow> py_replace ''.value'' [] (x @ ''.value'') = x"
proof (induction x)
  case Nil
  then show ?case by simp
next
  case (Cons c cs)
  from Cons.prems have np: "\<not> prefix ''.value'' (c # cs)" and ns: "\<not> sublist ''.value'' cs"
    by (simp_all add: sublist_Cons_right)
  from np have "\<not> prefix ''.value'' ((c # cs) @ ''.value'')"
    using prefix_value_append [of "c # cs"] by blast
  then have np': "\<not> prefix ''.value'' (c # (cs @ ''.value''))" by simp
  have "py_replace ''.value'' [] (c # (cs @ ''.value'')) = c # py_replace ''.value'' [] (cs @ ''.value'')"
    by (subst py_replace.simps(2)) (simp only: np' if_False list.distinct simp_thms)
  with Cons.IH [OF ns] show ?case by (simp only: append_Cons)
qed

lemma py_replace_value_plain:
  "\<not> sublist ''.value'' x \<Longrightarrow> py_replace ''.value'' [] x = x"
proof (induction x)
  case Nil
  then show ?case by simp
next
  case (Cons c cs)
  from Cons.prems have np: "\<not> prefix ''.value'' (c # cs)" and ns: "\<not> sublist ''.value'' cs"
    by (simp_all add: sublist_Cons_right)
  have "py_replace ''.value'' [] (c # cs) = c # py_replace ''.value'' [] cs"
    by (subst py_replace.simps(2)) (simp only: np if_False list.distinct simp_thms)
  with Cons.IH [OF ns] show ?case by simp
qed

lemma column_name_plain: "\<not> sublist ''.value'' x \<Longrightarrow> column_name x = x"
  by (simp add: column_name_def py_replace_value_plain)

lemma column_name_value: "\<not> sublist ''.value'' x \<Longrightarrow> column_name (x @ ''.value'') = x"
  by (simp add: column_name_def py_replace_value_suffix)

lemma fit_loop_lookup:
  "fit_loop s cols nd c =
     (case nd c of
        Some cls \<Rightarrow> Some cls
      | None \<Rightarrow>
          if c \<in> set cols
          then Some (get (priv_numerical_distributions s) (column_name c) (priv_default_distribution s))
          else None)"
  by (induction cols arbitrary: nd) (auto split: option.splits)

lemma fit_loop_dom: "dom (fit_loop s cols nd) = dom nd \<union> set cols"
  by (auto simp: dom_def fit_loop_lookup split: option.splits if_splits)

lemma learned_loop_lookup:
  "learned_loop s zs ld c =
     (case map_of (rev zs) c of
        Some p \<Rightarrow>
          Some \<lparr>distribution = get (numerical_distributions s) c (default_distribution s),
                learned_parameters = p\<rparr>
      | None \<Rightarrow> ld c)"
proof (induction zs arbitrary: ld)
  case Nil
  then show ?case by simp
next
  case (Cons z zs)
  obtain k p where z: "z = (k, p)" by (cases z)
  show ?case
    by (simp add: z Cons.IH map_add_def split: option.splits)
qed





lemma deepcopy_shape: "map_pyobj (\<lambda>a. ()) (deepcopy alloc x) = map_pyobj (\<lambda>a. ()) x"
  by (simp add: deepcopy_def pyobj.map_comp comp_def)


lemma get_learned_distributions_fitted:
  assumes "priv_fitted s" "priv_model s = Some model" "model_to_dict lib model = Inr ps"
  shows "get_learned_distributions lib s alloc =
           Inr (learned_loop s (zip (param_columns ps) (map (deepcopy alloc) (univariates ps)))
                  Map.empty)"
  using assms by (simp add: get_learned_distributions_def)


lemma stub_to_dict:
  "model_to_dict stub_copulas (Fitted [''colour'', ''x.value'']) =
     Inr \<lparr>param_columns = [''colour'', ''x.value''],
          univariates = [DictObj 0 [(''loc'', Atom (AFloat 0))],
                         DictObj (Suc 0) [(''loc'', Atom (AFloat 0))]]\<rparr>"
  by (simp add: stub_copulas_def upt_rec)

lemma learned_loop_map:
  "learned_loop s (map (\<lambda>(c, u). (c, f u)) zs) Map.empty column =
     map_option (\<lambda>e. \<lparr>distribution = distribution e, learned_parameters = f (learned_parameters e)\<rparr>)
       (learned_loop s zs Map.empty column)"
proof -
  have "map_of (rev (map (\<lambda>(c, u). (c, f u)) zs)) column =
        map_option f (map_of (rev zs) column)"
    by (simp add: rev_map map_of_map)
  then show ?thesis
    by (simp add: learned_loop_lookup split: option.splits)
qed

lemma report_shape:
  "map_option shape
     (learned_loop s (zip cols (map (deepcopy alloc) us)) Map.empty column) =
   map_option shape (learned_loop s (zip cols us) Map.empty column)"
proof -
  have z: "zip cols (map (deepcopy alloc) us) = map (\<lambda>(c, u). (c, deepcopy alloc u)) (zip cols us)"
    by (simp add: zip_map2)
  have h: "\<And>e :: nat learned.
      shape \<lparr>distribution = distribution e,
             learned_parameters = deepcopy alloc (learned_parameters e)\<rparr> = shape e"
    by (simp add: shape_def deepcopy_shape)
  show ?thesis
    unfolding z learned_loop_map by (simp add: option.map_comp comp_def h)
qed

lemma warn_loop_known:
  assumes "\<forall>(column, t) \<in> set m.
             \<exists>properties sdtype. priv_columns md column = Some properties \<and>
                                  properties ''sdtype'' = Some sdtype"
  shows "warn_loop md m =
           (None,
            map (\<lambda>(column, t). one_hot_warning column)
              (filter (\<lambda>(column, t).
                         t = OneHotEncoder \<and>
                         (\<exists>properties. priv_columns md column = Some properties \<and>
                                        properties ''sdtype'' = Some ''categorical''))
                 m))"
  using assms
proof (induction m)
  case Nil
  then show ?case by simp
next
  case (Cons ct m)
  obtain column t where ct: "ct = (column, t)" by (cases ct)
  from Cons.prems ct obtain properties sdtype where
    p: "priv_columns md column = Some properties" and q: "properties ''sdtype'' = Some sdtype"
    by auto
  from Cons have ih: "warn_loop md m =
           (None,
            map (\<lambda>(column, t). one_hot_warning column)
              (filter (\<lambda>(column, t).
                         t = OneHotEncoder \<and>
                         (\<exists>properties. priv_columns md column = Some properties \<and>
                                        properties ''sdtype'' = Some ''categorical''))
                 m))"
    by simp
  show ?case by (simp add: ct p q ih)
qed

section \<open>Construction\<close>

text \<open>
  Claim C1 asks every construction with a family name outside the recognised six to fail.
  The constructor at \<^verbatim>\<open>default_distribution=''\<close>: the empty string is no recognised
  name, yet \<^verbatim>\<open>default_distribution or 'beta'\<close> replaces it before it is validated, and
  the construction returns an instance whose default is \<^verbatim>\<open>beta\<close>. The same string as
  a per-column distribution reaches the validation as it is, and the construction raises.
\<close>

theorem init_accepts_empty_default_name:
  "[] \<notin> fst ` set priv_DISTRIBUTIONS \<and>
   (init base_init demo_metadata True True PyNone (PyStr []) :: error + stub_model synthesizer) =
     Inr \<lparr>metadata = demo_metadata, enforce_min_max_values = True, enforce_rounding = True,
          priv_fitted = False, default_distribution = PyStr ''beta'', numerical_distributions = [],
          priv_default_distribution = BetaUnivariate, priv_numerical_distributions = [],
          priv_model = None\<rparr> \<and>
   (init base_init demo_metadata True True (PyDict [(''x'', PyStr [])]) PyNone
      :: error + stub_model synthesizer) = Inl (ValueError_invalid_distribution (PyStr []))"
  by (simp add: init_def base_init_def py_or_def priv_DISTRIBUTIONS_def)

text \<open>
  Everywhere else the constructor does what the claim says. A construction fails, and
  returns no instance, whenever the default distribution is a non-empty family name
  outside the recognised six or some per-column distribution is a family name outside
  them; when the constructor of the base class has returned, the failure is a
  configuration error.
\<close>

theorem init_rejects_unrecognized_family:
  assumes "name \<notin> fst ` set priv_DISTRIBUTIONS"
    and "(dd = PyStr name \<and> name \<noteq> []) \<or> (nd = PyDict kvs \<and> (field, PyStr name) \<in> set kvs)"
  shows "\<exists>e. (init super_init md emm er nd dd :: error + 'm synthesizer) = Inl e \<and>
             (\<forall>base. super_init md emm er = Inr base \<longrightarrow> configuration_error e)"
proof (cases "super_init md emm er")
  case (Inl e)
  then show ?thesis by (simp add: init_super_raises)
next
  case (Inr base)
  have bad: "priv_validate_distribution (PyStr name) = Inl (ValueError_invalid_distribution (PyStr name))"
    using assms(1) by (rule priv_validate_distribution_unrecognized)
  from assms(2) show ?thesis
  proof
    assume d: "dd = PyStr name \<and> name \<noteq> []"
    from d bad have "priv_validate_distribution (py_or dd (PyStr ''beta'')) =
        Inl (ValueError_invalid_distribution (PyStr name))"
      by (simp add: py_or_def)
    with Inr have "\<exists>e'. (init super_init md emm er nd dd :: error + 'm synthesizer) = Inl e' \<and>
        configuration_error e'"
      by (rule init_bad_default)
    then show ?thesis by auto
  next
    assume n: "nd = PyDict kvs \<and> (field, PyStr name) \<in> set kvs"
    then have "(field, PyStr name) \<in> set kvs" by simp
    with Inr have "\<exists>e'. (init super_init md emm er (PyDict kvs) dd :: error + 'm synthesizer) = Inl e' \<and>
        configuration_error e'"
      using bad by (rule init_bad_item)
    with n show ?thesis by auto
  qed
qed

text \<open>The theorem at \<^verbatim>\<open>numerical_distributions={'x': 'poisson'}\<close>.\<close>

theorem init_rejects_unrecognized_family_witness:
  "''poisson'' \<notin> fst ` set priv_DISTRIBUTIONS \<and>
   (\<exists>e. (init base_init demo_metadata True True (PyDict [(''x'', PyStr ''poisson'')]) PyNone
          :: error + stub_model synthesizer) = Inl e \<and> configuration_error e)"
  using init_rejects_unrecognized_family [where 'm = stub_model, of "''poisson''" PyNone
      "PyDict [(''x'', PyStr ''poisson'')]" "[(''x'', PyStr ''poisson'')]" "''x''"
      base_init demo_metadata True True]
  by (simp add: priv_DISTRIBUTIONS_def base_init_def)

text \<open>
  Claim C7 asks every construction in which \<^verbatim>\<open>numerical_distributions\<close> is given and is
  no mapping to fail, and the message of the constructor says the argument ``can only be
  None or a dict instance''. The constructor at \<^verbatim>\<open>numerical_distributions=[]\<close>: the
  guard tests the truth value of the argument first, so the empty list, which is neither
  \<^verbatim>\<open>None\<close> nor a dictionary, passes it, and the construction returns an instance
  without overrides. The empty string, zero and \<^verbatim>\<open>False\<close> pass in the same way.
\<close>

theorem init_accepts_falsy_non_mapping:
  "\<not> is_dict (PyList []) \<and> PyList [] \<noteq> PyNone \<and>
   (init base_init demo_metadata True True (PyList []) PyNone :: error + stub_model synthesizer) =
     Inr \<lparr>metadata = demo_metadata, enforce_min_max_values = True, enforce_rounding = True,
          priv_fitted = False, default_distribution = PyStr ''beta'', numerical_distributions = [],
          priv_default_distribution = BetaUnivariate, priv_numerical_distributions = [],
          priv_model = None\<rparr> \<and>
   (init base_init demo_metadata True True (PyStr []) PyNone :: error + stub_model synthesizer) =
     init base_init demo_metadata True True (PyList []) PyNone \<and>
   (init base_init demo_metadata True True (PyInt 0) PyNone :: error + stub_model synthesizer) =
     init base_init demo_metadata True True (PyList []) PyNone \<and>
   (init base_init demo_metadata True True (PyBool False) PyNone :: error + stub_model synthesizer) =
     init base_init demo_metadata True True (PyList []) PyNone"
  by (simp add: init_def base_init_def py_or_def priv_DISTRIBUTIONS_def)

text \<open>
  Where the argument is a true value that is not a dictionary the constructor does what
  the claim says: the construction fails, and once the constructor of the base class has
  returned the failure is the \<^verbatim>\<open>TypeError\<close> of the constructor.
\<close>

theorem init_rejects_non_mapping:
  assumes "truthy nd" and "\<not> is_dict nd"
  shows "\<exists>e. (init super_init md emm er nd dd :: error + 'm synthesizer) = Inl e \<and>
             (\<forall>base. super_init md emm er = Inr base \<longrightarrow> e = TypeError_not_dict)"
proof (cases "super_init md emm er")
  case (Inl e)
  then show ?thesis by (simp add: init_super_raises)
next
  case (Inr base)
  then show ?thesis using assms by (simp add: init_not_dict)
qed

text \<open>The theorem at \<^verbatim>\<open>numerical_distributions='invalid'\<close>.\<close>

theorem init_rejects_non_mapping_witness:
  "truthy (PyStr ''invalid'') \<and> \<not> is_dict (PyStr ''invalid'') \<and>
   (init base_init demo_metadata True True (PyStr ''invalid'') PyNone
      :: error + stub_model synthesizer) = Inl TypeError_not_dict"
  using init_rejects_non_mapping [where 'm = stub_model, of "PyStr ''invalid''" base_init
      demo_metadata True True PyNone]
  by (simp add: base_init_def)

text \<open>
  Claim C10, as the code has it. Validation rejects every specification that is not a
  string, an instance of a univariate class among them. A construction fails when such a
  specification is a per-column override, or is the default and is a true value. An
  instance that was constructed has one of the six names as its default and as each of its
  overrides.
\<close>

theorem non_string_distribution_rejected:
  assumes "\<not> is_str v"
  shows "priv_validate_distribution v = Inl (ValueError_invalid_distribution v) \<and>
         (truthy v \<longrightarrow>
            (\<exists>e. (init super_init md emm er nd v :: error + 'm synthesizer) = Inl e)) \<and>
         ((field, v) \<in> set kvs \<longrightarrow>
            (\<exists>e. (init super_init md emm er (PyDict kvs) dd :: error + 'm synthesizer) = Inl e)) \<and>
         (\<forall>s :: 'm synthesizer. init super_init md emm er nd dd = Inr s \<longrightarrow>
            (\<exists>name. default_distribution s = PyStr name \<and> name \<in> fst ` set priv_DISTRIBUTIONS) \<and>
            (\<forall>(k, d) \<in> set (numerical_distributions s).
               \<exists>name. d = PyStr name \<and> name \<in> fst ` set priv_DISTRIBUTIONS))"
proof (intro conjI impI allI)
  show v: "priv_validate_distribution v = Inl (ValueError_invalid_distribution v)"
    using assms by (rule priv_validate_distribution_not_str)
  show "\<exists>e. (init super_init md emm er nd v :: error + 'm synthesizer) = Inl e" if t: "truthy v"
  proof (cases "super_init md emm er")
    case (Inl e)
    then show ?thesis by (simp add: init_super_raises)
  next
    case (Inr base)
    from t v have "priv_validate_distribution (py_or v (PyStr ''beta'')) =
        Inl (ValueError_invalid_distribution v)"
      by (simp add: py_or_def)
    with Inr have "\<exists>e'. (init super_init md emm er nd v :: error + 'm synthesizer) = Inl e' \<and>
        configuration_error e'"
      by (rule init_bad_default)
    then show ?thesis by blast
  qed
  show "\<exists>e. (init super_init md emm er (PyDict kvs) dd :: error + 'm synthesizer) = Inl e"
    if m: "(field, v) \<in> set kvs"
  proof (cases "super_init md emm er")
    case (Inl e)
    then show ?thesis by (simp add: init_super_raises)
  next
    case (Inr base)
    from Inr m v
    have "\<exists>e'. (init super_init md emm er (PyDict kvs) dd :: error + 'm synthesizer) = Inl e' \<and>
        configuration_error e'"
      by (rule init_bad_item)
    then show ?thesis by blast
  qed
  fix s :: "'m synthesizer"
  assume "init super_init md emm er nd dd = Inr s"
  from init_accepted [OF this]
  show "\<exists>name. default_distribution s = PyStr name \<and> name \<in> fst ` set priv_DISTRIBUTIONS"
    and "\<forall>(k, d) \<in> set (numerical_distributions s).
            \<exists>name. d = PyStr name \<and> name \<in> fst ` set priv_DISTRIBUTIONS"
    by blast+
qed

text \<open>
  The theorem at an instance of \<^verbatim>\<open>BetaUnivariate\<close>, as the default and as the
  override of \<^verbatim>\<open>x\<close>, and at the construction of \<open>demo_synthesizer\<close>.
\<close>

theorem non_string_distribution_rejected_witness:
  "\<not> is_str (PyUnivariate BetaUnivariate) \<and> truthy (PyUnivariate BetaUnivariate) \<and>
   priv_validate_distribution (PyUnivariate BetaUnivariate) =
     Inl (ValueError_invalid_distribution (PyUnivariate BetaUnivariate)) \<and>
   (\<exists>e. (init base_init demo_metadata True True PyNone (PyUnivariate BetaUnivariate)
           :: error + stub_model synthesizer) = Inl e) \<and>
   (\<exists>e. (init base_init demo_metadata True True (PyDict [(''x'', PyUnivariate BetaUnivariate)]) PyNone
           :: error + stub_model synthesizer) = Inl e) \<and>
   init base_init demo_metadata True True (PyDict [(''x'', PyStr ''norm'')]) PyNone =
     Inr demo_synthesizer \<and>
   default_distribution demo_synthesizer = PyStr ''beta'' \<and> ''beta'' \<in> fst ` set priv_DISTRIBUTIONS \<and>
   numerical_distributions demo_synthesizer = [(''x'', PyStr ''norm'')] \<and>
   ''norm'' \<in> fst ` set priv_DISTRIBUTIONS"
  using non_string_distribution_rejected [where 'm = stub_model, of "PyUnivariate BetaUnivariate"
      base_init demo_metadata True True PyNone "''x''" "[(''x'', PyUnivariate BetaUnivariate)]" PyNone]
    non_string_distribution_rejected [where 'm = stub_model, of "PyUnivariate BetaUnivariate"
      base_init demo_metadata True True "PyDict [(''x'', PyStr ''norm'')]" "''x''" "[]" PyNone]
    demo_init
  by (simp add: demo_synthesizer_def priv_DISTRIBUTIONS_def)

text \<open>
  The claim as written fails at a default that is false: \<^verbatim>\<open>None\<close>, the declared
  default of the argument, and the integer 0 are no strings, and each construction returns
  an instance whose default is \<^verbatim>\<open>beta\<close>.
\<close>

theorem init_accepts_false_default:
  "\<not> is_str PyNone \<and> \<not> is_str (PyInt 0) \<and>
   (init base_init demo_metadata True True PyNone PyNone :: error + stub_model synthesizer) =
     Inr \<lparr>metadata = demo_metadata, enforce_min_max_values = True, enforce_rounding = True,
          priv_fitted = False, default_distribution = PyStr ''beta'', numerical_distributions = [],
          priv_default_distribution = BetaUnivariate, priv_numerical_distributions = [],
          priv_model = None\<rparr> \<and>
   (init base_init demo_metadata True True PyNone (PyInt 0) :: error + stub_model synthesizer) =
     init base_init demo_metadata True True PyNone PyNone"
  by (simp add: init_def base_init_def py_or_def priv_DISTRIBUTIONS_def)

section \<open>Fitting\<close>

text \<open>
  Claim C2 has the column looked up ``after stripping a \<^verbatim>\<open>.value\<close> suffix'', to
  recover the field that the overrides are keyed by. \<^verbatim>\<open>_fit\<close> at two columns in which
  \<^verbatim>\<open>.value\<close> occurs elsewhere than at the end only:
  \<^item> the field \<^verbatim>\<open>price.value\<close> is configured as \<^verbatim>\<open>norm\<close>, and its column is
    \<^verbatim>\<open>price.value.value\<close>. Stripping the suffix gives the field; the code removes both
    occurrences, looks \<^verbatim>\<open>price\<close> up and assigns the default \<^verbatim>\<open>beta\<close>;
  \<^item> \<^verbatim>\<open>x.y\<close> is configured as \<^verbatim>\<open>norm\<close>, and the column is \<^verbatim>\<open>x.value.y\<close>. It has no
    such suffix and is not configured, so the claim assigns the default; the code looks
    \<^verbatim>\<open>x.y\<close> up and assigns the class of \<^verbatim>\<open>norm\<close>.
\<close>

theorem priv_fit_strips_value_inside_name:
  "init base_init demo_metadata True True (PyDict [(''price.value'', PyStr ''norm'')]) PyNone =
     Inr priced_synthesizer \<and>
   strip_value_suffix ''price.value.value'' = ''price.value'' \<and>
   map_of (priv_numerical_distributions priced_synthesizer) ''price.value'' =
     Some GaussianUnivariate \<and>
   map_of (priv_numerical_distributions priced_synthesizer) ''price.value.value'' = None \<and>
   fit_loop priced_synthesizer [''price.value.value'']
     (map_of (priv_numerical_distributions priced_synthesizer)) ''price.value.value'' =
     Some BetaUnivariate \<and>
   init base_init demo_metadata True True (PyDict [(''x.y'', PyStr ''norm'')]) PyNone =
     Inr dotted_synthesizer \<and>
   strip_value_suffix ''x.value.y'' = ''x.value.y'' \<and>
   map_of (priv_numerical_distributions dotted_synthesizer) ''x.value.y'' = None \<and>
   priv_default_distribution dotted_synthesizer = BetaUnivariate \<and>
   fit_loop dotted_synthesizer [''x.value.y'']
     (map_of (priv_numerical_distributions dotted_synthesizer)) ''x.value.y'' =
     Some GaussianUnivariate"
  by (simp add: init_def base_init_def py_or_def priv_DISTRIBUTIONS_def dotted_synthesizer_def
      priced_synthesizer_def get_def column_name_def strip_value_suffix_def suffix_def)

text \<open>
  What the loop of \<^verbatim>\<open>_fit\<close> computes for every column of the fit input: the override
  configured under the column name itself; otherwise the override configured under the
  result of \<^verbatim>\<open>column.replace('.value', '')\<close>, when there is one; otherwise the default.
  The joint model is built from this dictionary.
\<close>

theorem priv_fit_distribution_assignment:
  "\<exists>nd. (\<forall>column \<in> set (columns data).
            nd column =
              Some (case map_of (priv_numerical_distributions s) column of
                      Some cls \<Rightarrow> cls
                    | None \<Rightarrow>
                        (case map_of (priv_numerical_distributions s)
                                (py_replace ''.value'' [] column) of
                           Some cls \<Rightarrow> cls
                         | None \<Rightarrow> priv_default_distribution s))) \<and>
        priv_fit lib s data =
          (case GaussianMultivariate lib nd of
             Inl e \<Rightarrow> (Some e, s)
           | Inr model \<Rightarrow>
               (case model_fit lib model data of
                  (raised, model') \<Rightarrow> (raised, s\<lparr>priv_model := Some model'\<rparr>)))"
proof -
  let ?nd = "fit_loop s (columns data) (map_of (priv_numerical_distributions s))"
  have "\<forall>column \<in> set (columns data).
          ?nd column =
              Some (case map_of (priv_numerical_distributions s) column of
                      Some cls \<Rightarrow> cls
                    | None \<Rightarrow>
                        (case map_of (priv_numerical_distributions s)
                                (py_replace ''.value'' [] column) of
                           Some cls \<Rightarrow> cls
                         | None \<Rightarrow> priv_default_distribution s))"
    by (simp add: fit_loop_lookup get_def column_name_def split: option.splits)
  moreover have "priv_fit lib s data =
          (case GaussianMultivariate lib ?nd of
             Inl e \<Rightarrow> (Some e, s)
           | Inr model \<Rightarrow>
               (case model_fit lib model data of
                  (raised, model') \<Rightarrow> (raised, s\<lparr>priv_model := Some model'\<rparr>)))"
    by (simp add: priv_fit_def Let_def)
  ultimately show ?thesis by blast
qed

text \<open>The theorem at \<open>demo_synthesizer\<close> and the columns \<^verbatim>\<open>colour\<close> and
  \<^verbatim>\<open>x.value\<close>.\<close>

theorem priv_fit_distribution_assignment_witness:
  "\<exists>nd. nd ''colour'' = Some BetaUnivariate \<and> nd ''x.value'' = Some GaussianUnivariate \<and>
        priv_fit stub_copulas demo_synthesizer demo_data =
          (case GaussianMultivariate stub_copulas nd of
             Inl e \<Rightarrow> (Some e, demo_synthesizer)
           | Inr model \<Rightarrow>
               (case model_fit stub_copulas model demo_data of
                  (raised, model') \<Rightarrow> (raised, demo_synthesizer\<lparr>priv_model := Some model'\<rparr>)))"
proof -
  from priv_fit_distribution_assignment [of demo_data demo_synthesizer stub_copulas]
  obtain nd where
    a: "\<forall>column \<in> set (columns demo_data).
            nd column =
              Some (case map_of (priv_numerical_distributions demo_synthesizer) column of
                      Some cls \<Rightarrow> cls
                    | None \<Rightarrow>
                        (case map_of (priv_numerical_distributions demo_synthesizer)
                                (py_replace ''.value'' [] column) of
                           Some cls \<Rightarrow> cls
                         | None \<Rightarrow> priv_default_distribution demo_synthesizer))"
    and f: "priv_fit stub_copulas demo_synthesizer demo_data =
          (case GaussianMultivariate stub_copulas nd of
             Inl e \<Rightarrow> (Some e, demo_synthesizer)
           | Inr model \<Rightarrow>
               (case model_fit stub_copulas model demo_data of
                  (raised, model') \<Rightarrow> (raised, demo_synthesizer\<lparr>priv_model := Some model'\<rparr>)))"
    by blast
  from a have "nd ''colour'' = Some BetaUnivariate" "nd ''x.value'' = Some GaussianUnivariate"
    by (simp_all add: demo_data_def demo_synthesizer_def)
  with f show ?thesis by blast
qed

text \<open>
  On a column in which \<^verbatim>\<open>.value\<close> occurs at most once, at its end, the code looks up
  what the claim says: the name without the suffix.
\<close>

theorem column_name_agrees_with_suffix_stripping:
  assumes "\<not> sublist ''.value'' x"
  shows "column_name x = strip_value_suffix x \<and>
         column_name (x @ ''.value'') = strip_value_suffix (x @ ''.value'')"
proof -
  from assms have "\<not> suffix ''.value'' x" by (auto simp: suffix_def sublist_def)
  then have "strip_value_suffix x = x" by (simp add: strip_value_suffix_def)
  moreover have "strip_value_suffix (x @ ''.value'') = x"
    by (simp add: strip_value_suffix_def suffix_def)
  ultimately show ?thesis
    using assms by (simp add: column_name_value column_name_plain)
qed

text \<open>The theorem at the name \<^verbatim>\<open>x\<close>.\<close>

theorem column_name_agrees_with_suffix_stripping_witness:
  "\<not> sublist ''.value'' ''x'' \<and>
   column_name ''x'' = strip_value_suffix ''x'' \<and>
   column_name ''x.value'' = strip_value_suffix ''x.value''"
  using column_name_agrees_with_suffix_stripping [of "''x''"]
  by (simp add: sublist_Cons_right)





section \<open>Before and after fitting\<close>

text \<open>
  Claim C4, as the code has it. On every instance that is not fitted,
  \<^verbatim>\<open>get_learned_distributions\<close> raises its \<^verbatim>\<open>ValueError\<close> and returns nothing. On
  every such instance that holds no model, \<^verbatim>\<open>_sample\<close> raises \<^verbatim>\<open>AttributeError\<close>,
  returns nothing and leaves the instance as it was.
\<close>

theorem unfitted_instance_raises:
  assumes "\<not> priv_fitted s"
  shows "get_learned_distributions lib s alloc = Inl ValueError_not_fitted \<and>
         usage_sequencing_error ValueError_not_fitted \<and>
         (priv_model s = None \<longrightarrow>
            priv_sample lib s num_rows conditions = (Inl (AttributeError_NoneType ''sample''), s) \<and>
            usage_sequencing_error (AttributeError_NoneType ''sample''))"
  using assms
  by (simp add: get_learned_distributions_def priv_sample_def)

text \<open>The theorem at the newly constructed \<open>demo_synthesizer\<close>.\<close>

theorem unfitted_instance_raises_witness:
  "init base_init demo_metadata True True (PyDict [(''x'', PyStr ''norm'')]) PyNone =
     Inr demo_synthesizer \<and>
   \<not> priv_fitted demo_synthesizer \<and> priv_model demo_synthesizer = None \<and>
   get_learned_distributions stub_copulas demo_synthesizer 0 = Inl ValueError_not_fitted \<and>
   priv_sample stub_copulas demo_synthesizer 10 None =
     (Inl (AttributeError_NoneType ''sample''), demo_synthesizer)"
  using unfitted_instance_raises [of demo_synthesizer stub_copulas 0 10 None] demo_init
  by (simp add: demo_synthesizer_def)

text \<open>
  The claim as written, for every instance that is not fitted, fails at an instance that
  holds a model: \<^verbatim>\<open>_fit\<close> stores the new model before the library fits it, and
  \<^verbatim>\<open>_sample\<close> asks whatever model is stored, without looking at \<^verbatim>\<open>_fitted\<close>. With a
  library whose \<^verbatim>\<open>fit\<close> raises late, \<^verbatim>\<open>fit\<close> raises, the instance stays unfitted, and
  \<^verbatim>\<open>_sample\<close> returns a table.
\<close>

theorem priv_sample_returns_on_unfitted_instance:
  "fit late_copulas demo_synthesizer demo_data =
     (Some (Raised ''interrupted''),
      demo_synthesizer\<lparr>priv_model := Some (Fitted [''colour'', ''x.value''])\<rparr>) \<and>
   \<not> priv_fitted (demo_synthesizer\<lparr>priv_model := Some (Fitted [''colour'', ''x.value''])\<rparr>) \<and>
   get_learned_distributions late_copulas
     (demo_synthesizer\<lparr>priv_model := Some (Fitted [''colour'', ''x.value''])\<rparr>) 2 =
     Inl ValueError_not_fitted \<and>
   priv_sample late_copulas
     (demo_synthesizer\<lparr>priv_model := Some (Fitted [''colour'', ''x.value''])\<rparr>) 10 None =
     (Inr \<lparr>columns = [''colour'', ''x.value''], cells = ()\<rparr>,
      demo_synthesizer\<lparr>priv_model := Some (Fitted [''colour'', ''x.value''])\<rparr>)"
  by (simp add: fit_def priv_fit_def priv_sample_def get_learned_distributions_def late_copulas_def
      stub_copulas_def demo_data_def demo_synthesizer_def Let_def)



text \<open>
  Claim C6. On a fitted instance whose model reports its parameters, two calls of
  \<^verbatim>\<open>get_learned_distributions\<close> both return, and their reports are structurally equal:
  the entries of every column agree up to the identity of the copied objects.
\<close>

theorem get_learned_distributions_idempotent:
  assumes "priv_fitted s" "priv_model s = Some model" "model_to_dict lib model = Inr ps"
  shows "\<exists>first second.
           get_learned_distributions lib s alloc = Inr first \<and>
           get_learned_distributions lib s alloc' = Inr second \<and>
           (\<forall>column. map_option shape (first column) = map_option shape (second column))"
proof -
  have "\<forall>column.
      map_option shape
        (learned_loop s (zip (param_columns ps) (map (deepcopy alloc) (univariates ps))) Map.empty column) =
      map_option shape
        (learned_loop s (zip (param_columns ps) (map (deepcopy alloc') (univariates ps))) Map.empty column)"
    by (simp add: report_shape)
  then show ?thesis
    using get_learned_distributions_fitted [OF assms] by blast
qed

text \<open>The theorem at the fitted \<open>demo_synthesizer\<close>.\<close>

theorem get_learned_distributions_idempotent_witness:
  "fit stub_copulas demo_synthesizer demo_data = (None, fitted_synthesizer) \<and>
   priv_fitted fitted_synthesizer \<and>
   (\<exists>first second.
      get_learned_distributions stub_copulas fitted_synthesizer 2 = Inr first \<and>
      get_learned_distributions stub_copulas fitted_synthesizer 4 = Inr second \<and>
      (\<forall>column. map_option shape (first column) = map_option shape (second column)))"
proof -
  have 1: "priv_fitted fitted_synthesizer" by (simp add: fitted_synthesizer_def)
  have 2: "priv_model fitted_synthesizer = Some (Fitted [''colour'', ''x.value''])"
    by (simp add: fitted_synthesizer_def)
  from get_learned_distributions_idempotent [OF 1 2 stub_to_dict, of 2 4] 1 demo_fit
  show ?thesis by blast
qed

section \<open>The advisory warning\<close>

text \<open>
  Claim C9, as the code has it. When every column of the dictionary is described in the
  metadata with an \<^verbatim>\<open>sdtype\<close>, the hook raises nothing, issues one warning for each item
  whose column is categorical and whose transformer is a \<^verbatim>\<open>OneHotEncoder\<close>, in the order
  of the items, and leaves the instance as it was.
\<close>

theorem priv_warn_for_update_transformers_advisory:
  assumes "\<forall>(column, t) \<in> set m.
             \<exists>properties sdtype. priv_columns (metadata s) column = Some properties \<and>
                                  properties ''sdtype'' = Some sdtype"
  shows "priv_warn_for_update_transformers s m =
           ((None,
             map (\<lambda>(column, t). one_hot_warning column)
               (filter (\<lambda>(column, t).
                          t = OneHotEncoder \<and>
                          (\<exists>properties. priv_columns (metadata s) column = Some properties \<and>
                                         properties ''sdtype'' = Some ''categorical''))
                  m)),
            s)"
  using warn_loop_known [OF assms] by (simp add: priv_warn_for_update_transformers_def)

text \<open>The theorem at three items: a categorical column with a \<^verbatim>\<open>OneHotEncoder\<close>, a
  numerical column with one, and a categorical column with another transformer.\<close>

theorem priv_warn_for_update_transformers_advisory_witness:
  "priv_warn_for_update_transformers demo_synthesizer
     [(''colour'', OneHotEncoder), (''x'', OneHotEncoder),
      (''size'', OtherTransformer ''LabelEncoder'')] =
     ((None, [one_hot_warning ''colour'']), demo_synthesizer)"
proof -
  have "\<forall>(column, t) \<in> set [(''colour'', OneHotEncoder), (''x'', OneHotEncoder),
                             (''size'', OtherTransformer ''LabelEncoder'')].
             \<exists>properties sdtype. priv_columns (metadata demo_synthesizer) column = Some properties \<and>
                                  properties ''sdtype'' = Some sdtype"
    by (simp add: demo_synthesizer_def demo_metadata_def)
  from priv_warn_for_update_transformers_advisory [OF this]
  show ?thesis by (simp add: demo_synthesizer_def demo_metadata_def)
qed

text \<open>
  The claim as written, for every dictionary, fails at a column that the metadata does
  not describe: the subscript \<^verbatim>\<open>self.metadata._columns[column]\<close> raises \<^verbatim>\<open>KeyError\<close>
  and the hook ends with that exception. The categorical column \<^verbatim>\<open>colour\<close> that follows
  with a \<^verbatim>\<open>OneHotEncoder\<close> gets no warning.
\<close>

theorem priv_warn_for_update_transformers_unknown_column:
  "priv_columns (metadata demo_synthesizer) ''height'' = None \<and>
   priv_columns (metadata demo_synthesizer) ''colour'' = Some [''sdtype'' \<mapsto> ''categorical''] \<and>
   priv_warn_for_update_transformers demo_synthesizer
     [(''height'', OneHotEncoder), (''colour'', OneHotEncoder)] =
     ((Some (KeyError ''height''), []), demo_synthesizer)"
  by (simp add: priv_warn_for_update_transformers_def demo_synthesizer_def demo_metadata_def)

end
